theory Spec2Isabelle
  imports Complex_Main "HOL-Library.AList"
begin

section \<open>The AI service layer of the meeting summarizer\<close>

text \<open>
  A shallow embedding of \<^verbatim>\<open>backend/services/aiService.js\<close>: the base class
  \<^verbatim>\<open>AIService\<close>, its two subclasses \<^verbatim>\<open>GroqService\<close> and \<^verbatim>\<open>OpenAIService\<close>, and the
  \<^verbatim>\<open>AIServiceManager\<close> that tries them in order.

  Conventions.
  \<^item> A JavaScript string is a \<open>string\<close>; each \<open>char\<close> stands for one code unit below 256.
  \<^item> A property that may be \<^verbatim>\<open>undefined\<close> (or \<^verbatim>\<open>null\<close>) is an \<open>option\<close>, \<open>None\<close> for the
    missing value.
  \<^item> A \<^verbatim>\<open>throw\<close> is the \<open>Inl\<close> branch of a sum; an \<^verbatim>\<open>Error\<close> object carries nothing but
    its message, so each \<^verbatim>\<open>throw new Error(...)\<close> statement is one constructor of an error
    datatype and a function gives the message text.
  \<^item> The network is an oracle from requests to outcomes; every request that is issued and
    every console line that is printed is appended to an explicit \<open>world\<close>.
\<close>

subsection \<open>JavaScript values\<close>

text \<open>\<^verbatim>\<open>!!s\<close> for a value that is a string or \<^verbatim>\<open>undefined\<close>: the empty string and
  \<^verbatim>\<open>undefined\<close> are falsy.\<close>

fun truthy :: "string option \<Rightarrow> bool" where
  "truthy None = False"
| "truthy (Some s) = (s \<noteq> [])"

text \<open>\<^verbatim>\<open>a || b\<close> on such values.\<close>

definition js_or :: "string option \<Rightarrow> string option \<Rightarrow> string option" where
  "js_or a b = (if truthy a then a else b)"

text \<open>\<^verbatim>\<open>a || d\<close> where \<open>d\<close> is a string literal.\<close>

definition or_default :: "string option \<Rightarrow> string \<Rightarrow> string" where
  "or_default a d = (case a of None \<Rightarrow> d | Some s \<Rightarrow> if s = [] then d else s)"

text \<open>\<^verbatim>\<open>n || d\<close> where \<open>n\<close> is a number or \<^verbatim>\<open>undefined\<close>: zero is falsy.\<close>

definition num_or_default :: "nat option \<Rightarrow> nat \<Rightarrow> nat" where
  "num_or_default a d = (case a of None \<Rightarrow> d | Some n \<Rightarrow> if n = 0 then d else n)"

text \<open>The white space that \<^verbatim>\<open>String.prototype.trim\<close> strips, among the code units below
  256: TAB, LF, VT, FF, CR, SPACE and NO-BREAK SPACE.\<close>

definition is_js_space :: "char \<Rightarrow> bool" where
  "is_js_space c = (of_char c \<in> {9, 10, 11, 12, 13, 32, 160 :: nat})"

definition trim :: "string \<Rightarrow> string" where
  "trim s = rev (dropWhile is_js_space (rev (dropWhile is_js_space s)))"

definition nl :: string where
  "nl = [CHR 0x0A]"

subsection \<open>Configuration and adapters\<close>

text \<open>The configuration object of one adapter. Only the three properties the classes read
  are kept; a missing property is \<open>None\<close>.\<close>

record svc_config =
  cfg_apiKey :: "string option"
  cfg_model :: "string option"
  cfg_timeout :: "nat option"

definition empty_config :: svc_config where
  "empty_config = \<lparr>cfg_apiKey = None, cfg_model = None, cfg_timeout = None\<rparr>"

text \<open>The argument given to an adapter's constructor. The parameter is declared
  \<^verbatim>\<open>config = {}\<close>, so \<^verbatim>\<open>undefined\<close> becomes the empty object, while \<^verbatim>\<open>null\<close> stays \<^verbatim>\<open>null\<close>
  and the read of \<^verbatim>\<open>config.timeout\<close> throws a TypeError.\<close>

datatype config_arg = ArgUndefined | ArgNull | ArgObject svc_config

datatype provider = Groq | OpenAI

text \<open>The two variables of \<^verbatim>\<open>process.env\<close> that the constructors read, and what
  \<^verbatim>\<open>require('../config/envValidation').getConfig('ai')\<close> yields: \<open>None\<close> when the call throws
  or returns a falsy value.\<close>

record manager_config =
  groq :: config_arg
  openai :: config_arg

record process_env =
  GROQ_API_KEY :: "string option"
  OPENAI_API_KEY :: "string option"
  getConfig_ai :: "manager_config option"

text \<open>An instance of \<^verbatim>\<open>GroqService\<close> or \<^verbatim>\<open>OpenAIService\<close>: the class and the fields the
  constructors assign.\<close>

record service =
  cls :: provider
  config :: svc_config
  timeout :: nat
  apiKey :: "string option"
  baseURL :: string
  model :: string

datatype construct_error = TypeError

fun env_key :: "process_env \<Rightarrow> provider \<Rightarrow> string option" where
  "env_key pe Groq = GROQ_API_KEY pe"
| "env_key pe OpenAI = OPENAI_API_KEY pe"

fun base_url :: "provider \<Rightarrow> string" where
  "base_url Groq = ''https://api.groq.com/openai/v1''"
| "base_url OpenAI = ''https://api.openai.com/v1''"

fun default_model :: "provider \<Rightarrow> string" where
  "default_model Groq = ''llama3-8b-8192''"
| "default_model OpenAI = ''gpt-3.5-turbo''"

text \<open>The constructors: \<^verbatim>\<open>super(config)\<close> stores the configuration and the timeout
  (30 seconds by default), then the subclass takes the key from the configuration or else
  from the environment, and fixes the URL and the model.\<close>

definition new_service_obj :: "process_env \<Rightarrow> provider \<Rightarrow> svc_config \<Rightarrow> service" where
  "new_service_obj pe p c =
     \<lparr>cls = p,
      config = c,
      timeout = num_or_default (cfg_timeout c) 30000,
      apiKey = js_or (cfg_apiKey c) (env_key pe p),
      baseURL = base_url p,
      model = or_default (cfg_model c) (default_model p)\<rparr>"

fun new_service :: "process_env \<Rightarrow> provider \<Rightarrow> config_arg \<Rightarrow> construct_error + service" where
  "new_service pe p ArgUndefined = Inr (new_service_obj pe p empty_config)"
| "new_service pe p ArgNull = Inl TypeError"
| "new_service pe p (ArgObject c) = Inr (new_service_obj pe p c)"

subsection \<open>Status of an adapter\<close>

record service_status =
  name :: string
  configured :: bool
  st_timeout :: nat
  st_model :: string
  st_baseURL :: string

fun status_name :: "provider \<Rightarrow> string" where
  "status_name Groq = ''Groq''"
| "status_name OpenAI = ''OpenAI''"

text \<open>\<^verbatim>\<open>getServiceStatus\<close> of the subclass spreads the base class's object, whose
  \<^verbatim>\<open>configured\<close> is \<^verbatim>\<open>!!this.config.apiKey\<close>, and overrides the name.\<close>

definition getServiceStatus :: "service \<Rightarrow> service_status" where
  "getServiceStatus s =
     \<lparr>name = status_name (cls s),
      configured = truthy (cfg_apiKey (config s)),
      st_timeout = timeout s,
      st_model = model s,
      st_baseURL = baseURL s\<rparr>"

subsection \<open>Requests, responses and the world\<close>

datatype http_method = GET | POST

record chat_message =
  role :: string
  msg_content :: string

text \<open>The body of the chat-completion request; \<^verbatim>\<open>temperature: 0.3\<close> is the decimal
  literal.\<close>

record chat_body =
  body_model :: string
  messages :: "chat_message list"
  max_tokens :: nat
  temperature :: rat

record http_request =
  req_method :: http_method
  url :: string
  body :: "chat_body option"
  headers :: "(string \<times> string) list"
  req_timeout :: nat

text \<open>A response: \<^verbatim>\<open>data.choices\<close> may be missing, a choice may lack its
  \<^verbatim>\<open>message\<close>, and \<^verbatim>\<open>message.content\<close> may be \<^verbatim>\<open>null\<close>; \<open>total_tokens\<close> is
  \<^verbatim>\<open>data.usage?.total_tokens\<close>. Missing stands for \<^verbatim>\<open>undefined\<close> and for \<^verbatim>\<open>null\<close> alike.
  When something on the path \<^verbatim>\<open>data.choices[0].message\<close> is missing, reading the content
  raises a TypeError; its message is worded by the JavaScript engine and tells
  \<^verbatim>\<open>undefined\<close> from \<^verbatim>\<open>null\<close>, so it comes with the response as \<open>type_error_text\<close>.\<close>

datatype message = Message (content_of: "string option")
datatype choice = Choice (message_of: "message option")

record http_response =
  status :: nat
  choices :: "choice list option"
  total_tokens :: "nat option"
  type_error_text :: string

text \<open>What axios rejects with: \<^verbatim>\<open>error.code\<close>, \<^verbatim>\<open>error.response\<close> (its status and its
  \<^verbatim>\<open>data\<close>, of which \<^verbatim>\<open>data.error?.message\<close> is kept) and \<^verbatim>\<open>error.message\<close>; any of
  them may be missing, as in the objects the tests reject with.\<close>

record error_data =
  error_message :: "string option"

record error_response =
  er_status :: nat
  er_data :: "error_data option"

record js_error =
  code :: "string option"
  response :: "error_response option"
  err_message :: "string option"

datatype http_outcome = Resolved http_response | Rejected js_error

text \<open>The outside world: what axios does with each request, and the value of
  \<^verbatim>\<open>Date.now()\<close>, which one call of the manager reads at most once. The outcome is a
  function of the request; the adapters of a manager built by the constructor post to
  different hosts, so each may fail or succeed on its own.\<close>

record network =
  respond :: "http_request \<Rightarrow> http_outcome"
  date_now :: int

datatype console_arg = Str string | Data error_data | Undefined

datatype console_line =
    ConsoleLog string
  | ConsoleWarn string
  | ConsoleError "console_arg list"

text \<open>The effects of a run: the requests handed to axios and the lines printed on the
  console, both in order.\<close>

record world =
  requests :: "http_request list"
  console :: "console_line list"

definition issue :: "http_request \<Rightarrow> world \<Rightarrow> world" where
  "issue r w = w\<lparr>requests := requests w @ [r]\<rparr>"

definition print :: "console_line \<Rightarrow> world \<Rightarrow> world" where
  "print l w = w\<lparr>console := console w @ [l]\<rparr>"

subsection \<open>Summaries and adapter errors\<close>

record summary_metadata =
  md_service :: string
  md_model :: string
  tokensUsed :: nat
  processingTime :: int

record summary =
  content :: "string option"
  metadata :: summary_metadata

text \<open>One constructor for each \<^verbatim>\<open>throw new Error(...)\<close> of an adapter's
  \<^verbatim>\<open>generateSummary\<close>, in the order of the source; the last carries the text interpolated
  into its message.\<close>

datatype service_error =
    KeyNotConfigured
  | Timeout
  | InvalidCredentials
  | RateLimited
  | ProviderUnavailable
  | ProviderError string

fun service_error_message :: "provider \<Rightarrow> service_error \<Rightarrow> string" where
  "service_error_message p KeyNotConfigured = status_name p @ '' API key not configured''"
| "service_error_message p Timeout = status_name p @ '' service timeout - please try again''"
| "service_error_message p InvalidCredentials = ''Invalid '' @ status_name p @ '' API key''"
| "service_error_message p RateLimited =
     status_name p @ '' rate limit exceeded - please try again later''"
| "service_error_message p ProviderUnavailable =
     status_name p @ '' service temporarily unavailable''"
| "service_error_message p (ProviderError m) = status_name p @ '' service error: '' @ m"

subsection \<open>The adapters' \<^verbatim>\<open>generateSummary\<close>\<close>

definition defaultInstructions :: string where
  "defaultInstructions =
     ''Please provide a comprehensive summary of this meeting transcript. Include:'' @ nl @
     ''1. Key discussion points'' @ nl @
     ''2. Decisions made'' @ nl @
     ''3. Action items and assignments'' @ nl @
     ''4. Next steps'' @ nl @ nl @
     ''Format the response in clear sections with bullet points where appropriate.''"

definition system_content :: string where
  "system_content =
     ''You are a helpful assistant that specializes in summarizing meeting transcripts.''"

text \<open>\<^verbatim>\<open>instructions.trim() || defaultInstructions\<close>\<close>

definition prompt :: "string \<Rightarrow> string" where
  "prompt instructions = or_default (Some (trim instructions)) defaultInstructions"

definition fullPrompt :: "string \<Rightarrow> string \<Rightarrow> string" where
  "fullPrompt transcript instructions =
     prompt instructions @ nl @ nl @ ''Transcript:'' @ nl @ transcript"

text \<open>A string or \<^verbatim>\<open>undefined\<close> interpolated into a template literal.\<close>

definition interpolate :: "string option \<Rightarrow> string" where
  "interpolate a = (case a of None \<Rightarrow> ''undefined'' | Some s \<Rightarrow> s)"

definition bearer :: "service \<Rightarrow> string" where
  "bearer s = ''Bearer '' @ interpolate (apiKey s)"

definition summary_request :: "service \<Rightarrow> string \<Rightarrow> string \<Rightarrow> http_request" where
  "summary_request s transcript instructions =
     \<lparr>req_method = POST,
      url = baseURL s @ ''/chat/completions'',
      body = Some
        \<lparr>body_model = model s,
         messages =
           [\<lparr>role = ''system'', msg_content = system_content\<rparr>,
            \<lparr>role = ''user'', msg_content = fullPrompt transcript instructions\<rparr>],
         max_tokens = 2000,
         temperature = 3 / 10\<rparr>,
      headers =
        [(''Authorization'', bearer s), (''Content-Type'', ''application/json'')],
      req_timeout = timeout s\<rparr>"

fun service_tag :: "provider \<Rightarrow> string" where
  "service_tag Groq = ''groq''"
| "service_tag OpenAI = ''openai''"

text \<open>The TypeError raised inside the \<^verbatim>\<open>try\<close> block when the content cannot be read;
  it has neither \<^verbatim>\<open>code\<close> nor \<^verbatim>\<open>response\<close>.\<close>

definition type_error :: "http_response \<Rightarrow> js_error" where
  "type_error r = \<lparr>code = None, response = None, err_message = Some (type_error_text r)\<rparr>"

text \<open>The expression after \<^verbatim>\<open>return\<close> in the \<^verbatim>\<open>try\<close> block:
  \<^verbatim>\<open>response.data.choices[0].message.content\<close> and the metadata. The read fails when
  \<^verbatim>\<open>choices\<close> is missing, when it is empty, and when the first choice has no message.\<close>

definition read_summary :: "network \<Rightarrow> service \<Rightarrow> http_response \<Rightarrow> js_error + summary" where
  "read_summary nw s r =
     (case choices r of
        None \<Rightarrow> Inl (type_error r)
      | Some [] \<Rightarrow> Inl (type_error r)
      | Some (Choice None # _) \<Rightarrow> Inl (type_error r)
      | Some (Choice (Some (Message c)) # _) \<Rightarrow>
          Inr \<lparr>content = c,
               metadata =
                 \<lparr>md_service = service_tag (cls s),
                  md_model = model s,
                  tokensUsed = num_or_default (total_tokens r) 0,
                  processingTime = date_now nw\<rparr>\<rparr>)"

text \<open>\<^verbatim>\<open>error.response?.data?.error?.message\<close>\<close>

definition provider_message :: "js_error \<Rightarrow> string option" where
  "provider_message e =
     (case response e of
        None \<Rightarrow> None
      | Some r \<Rightarrow> (case er_data r of None \<Rightarrow> None | Some d \<Rightarrow> error_message d))"

text \<open>\<^verbatim>\<open>error.response?.data?.error?.message || error.message\<close>, as interpolated into
  the message of the last \<^verbatim>\<open>throw\<close>.\<close>

definition error_text :: "js_error \<Rightarrow> string" where
  "error_text e = interpolate (js_or (provider_message e) (err_message e))"

text \<open>\<^verbatim>\<open>error.response?.data || error.message\<close>, the second argument of the adapter's
  \<^verbatim>\<open>console.error\<close>.\<close>

definition error_detail :: "js_error \<Rightarrow> console_arg" where
  "error_detail e =
     (case (case response e of None \<Rightarrow> None | Some r \<Rightarrow> er_data r) of
        Some d \<Rightarrow> Data d
      | None \<Rightarrow> (case err_message e of None \<Rightarrow> Undefined | Some m \<Rightarrow> Str m))"

definition response_status :: "js_error \<Rightarrow> nat option" where
  "response_status e = map_option er_status (response e)"

text \<open>The \<^verbatim>\<open>catch\<close> block, test by test in the order of the source. Only the last
  branch prints to the console.\<close>

definition catch_error :: "provider \<Rightarrow> js_error \<Rightarrow> world \<Rightarrow> service_error \<times> world" where
  "catch_error p e w =
     (if code e = Some ''ECONNABORTED'' then (Timeout, w)
      else if response_status e = Some 401 then (InvalidCredentials, w)
      else if response_status e = Some 429 then (RateLimited, w)
      else if (case response_status e of None \<Rightarrow> False | Some n \<Rightarrow> n \<ge> 500)
        then (ProviderUnavailable, w)
      else (ProviderError (error_text e),
            print (ConsoleError [Str (status_name p @ '' API error:''), error_detail e]) w))"

definition generateSummary ::
  "network \<Rightarrow> service \<Rightarrow> string \<Rightarrow> string \<Rightarrow> world \<Rightarrow> (service_error + summary) \<times> world" where
  "generateSummary nw s transcript instructions w =
     (if \<not> truthy (apiKey s) then (Inl KeyNotConfigured, w)
      else
        let req = summary_request s transcript instructions;
            w1 = issue req w
        in case respond nw req of
             Rejected e \<Rightarrow> (case catch_error (cls s) e w1 of (err, w2) \<Rightarrow> (Inl err, w2))
           | Resolved r \<Rightarrow>
               (case read_summary nw s r of
                  Inl e \<Rightarrow> (case catch_error (cls s) e w1 of (err, w2) \<Rightarrow> (Inl err, w2))
                | Inr res \<Rightarrow> (Inr res, w1)))"

subsection \<open>The adapters' \<^verbatim>\<open>validateConnection\<close>\<close>

definition models_request :: "service \<Rightarrow> http_request" where
  "models_request s =
     \<lparr>req_method = GET,
      url = baseURL s @ ''/models'',
      body = None,
      headers = [(''Authorization'', bearer s)],
      req_timeout = 5000\<rparr>"

definition validateConnection :: "network \<Rightarrow> service \<Rightarrow> world \<Rightarrow> bool \<times> world" where
  "validateConnection nw s w =
     (if \<not> truthy (apiKey s) then (False, w)
      else
        let req = models_request s; w1 = issue req w
        in case respond nw req of
             Resolved r \<Rightarrow> (status r = 200, w1)
           | Rejected e \<Rightarrow> (False, w1))"

subsection \<open>The manager\<close>

record manager =
  services :: "service list"
  currentServiceIndex :: nat
  mgr_config :: "manager_config option"

text \<open>\<^verbatim>\<open>addService\<close>: every value of type \<open>service\<close> is an instance of a subclass of
  \<^verbatim>\<open>AIService\<close>, so the \<^verbatim>\<open>instanceof\<close> test passes and the service is pushed.\<close>

definition addService :: "manager \<Rightarrow> service \<Rightarrow> manager" where
  "addService m s = m\<lparr>services := services m @ [s]\<rparr>"

text \<open>The first half of \<^verbatim>\<open>initializeServices\<close>: \<^verbatim>\<open>aiConfig\<close> is the configuration of
  the manager if it is truthy, else what \<^verbatim>\<open>getConfig('ai')\<close> gives, with a warning on the
  console when that throws.\<close>

definition load_config :: "process_env \<Rightarrow> manager \<Rightarrow> world \<Rightarrow> manager_config option \<times> world" where
  "load_config pe m w =
     (case mgr_config m of
        Some c \<Rightarrow> (Some c, w)
      | None \<Rightarrow>
          (case getConfig_ai pe of
             Some c \<Rightarrow> (Some c, w)
           | None \<Rightarrow>
               (None, print (ConsoleWarn
                  ''Environment validation not available, using fallback configuration'') w)))"

text \<open>\<^verbatim>\<open>this.addService(new GroqService(a)); this.addService(new OpenAIService(b))\<close>: a
  constructor that throws ends the method.\<close>

definition add_both ::
  "process_env \<Rightarrow> manager \<Rightarrow> config_arg \<Rightarrow> config_arg \<Rightarrow> construct_error + manager" where
  "add_both pe m a b =
     (case new_service pe Groq a of
        Inl e \<Rightarrow> Inl e
      | Inr g \<Rightarrow>
          (case new_service pe OpenAI b of
             Inl e \<Rightarrow> Inl e
           | Inr oa \<Rightarrow> Inr (addService (addService m g) oa)))"

text \<open>\<^verbatim>\<open>initializeServices\<close>: with a configuration the two adapters get its \<^verbatim>\<open>groq\<close> and
  \<^verbatim>\<open>openai\<close> properties, without one they are constructed with no argument.\<close>

definition initializeServices ::
  "process_env \<Rightarrow> manager \<Rightarrow> world \<Rightarrow> (construct_error + manager) \<times> world" where
  "initializeServices pe m w =
     (case load_config pe m w of
        (Some c, w1) \<Rightarrow> (add_both pe m (groq c) (openai c), w1)
      | (None, w1) \<Rightarrow> (add_both pe m ArgUndefined ArgUndefined, w1))"

text \<open>The constructor; its parameter is declared \<^verbatim>\<open>config = null\<close>.\<close>

definition new_manager ::
  "process_env \<Rightarrow> manager_config option \<Rightarrow> world \<Rightarrow> (construct_error + manager) \<times> world" where
  "new_manager pe cfg w =
     initializeServices pe \<lparr>services = [], currentServiceIndex = 0, mgr_config = cfg\<rparr> w"

record managed_metadata = summary_metadata +
  attemptedServices :: nat
  successfulService :: string

record managed_summary =
  m_content :: "string option"
  m_metadata :: managed_metadata

text \<open>The two \<^verbatim>\<open>throw\<close> statements of the manager's \<^verbatim>\<open>generateSummary\<close>.\<close>

datatype manager_error = NoServicesConfigured | AllServicesFailed string

fun manager_error_message :: "manager_error \<Rightarrow> string" where
  "manager_error_message NoServicesConfigured = ''No AI services configured''"
| "manager_error_message (AllServicesFailed m) = ''All AI services failed. Last error: '' @ m"

fun constructor_name :: "provider \<Rightarrow> string" where
  "constructor_name Groq = ''GroqService''"
| "constructor_name OpenAI = ''OpenAIService''"

text \<open>\<^verbatim>\<open>{...result, metadata: {...result.metadata, attemptedServices, successfulService}}\<close>\<close>

definition annotate :: "summary \<Rightarrow> nat \<Rightarrow> string \<Rightarrow> managed_summary" where
  "annotate r n nm =
     \<lparr>m_content = content r,
      m_metadata =
        \<lparr>md_service = md_service (metadata r),
         md_model = md_model (metadata r),
         tokensUsed = tokensUsed (metadata r),
         processingTime = processingTime (metadata r),
         attemptedServices = n,
         successfulService = nm\<rparr>\<rparr>"

definition failed_line :: "service \<Rightarrow> service_error \<Rightarrow> console_line" where
  "failed_line s err =
     ConsoleError [Str (constructor_name (cls s) @ '' failed:''),
                   Str (service_error_message (cls s) err)]"

text \<open>The \<^verbatim>\<open>for\<close> loop, from index \<open>i\<close> with the services that remain: \<open>Inr\<close> is the
  \<^verbatim>\<open>return\<close> with the index of the success, \<open>Inl\<close> falls out of the loop with
  \<^verbatim>\<open>lastError\<close> (the message of the error object, or \<open>None\<close> while it is \<^verbatim>\<open>undefined\<close>).\<close>

fun try_services ::
  "network \<Rightarrow> string \<Rightarrow> string \<Rightarrow> service list \<Rightarrow> nat \<Rightarrow> string option \<Rightarrow> world \<Rightarrow>
     (string option + nat \<times> managed_summary) \<times> world" where
  "try_services nw transcript instructions [] i lastError w = (Inl lastError, w)"
| "try_services nw transcript instructions (s # ss) i lastError w =
     (let st = getServiceStatus s in
      if \<not> configured st then
        try_services nw transcript instructions ss (i + 1) lastError
          (print (ConsoleLog (''Skipping '' @ name st @ '' - not configured'')) w)
      else
        let w1 = print (ConsoleLog (''Attempting summary generation with '' @ name st)) w
        in case generateSummary nw s transcript instructions w1 of
             (Inr res, w2) \<Rightarrow> (Inr (i, annotate res (i + 1) (name st)), w2)
           | (Inl err, w2) \<Rightarrow>
               try_services nw transcript instructions ss (i + 1)
                 (Some (service_error_message (cls s) err))
                 (print (failed_line s err) w2))"

text \<open>The manager's \<^verbatim>\<open>generateSummary\<close>: the updated manager is returned with the
  result (\<^verbatim>\<open>currentServiceIndex\<close> changes on success).\<close>

definition manager_generateSummary ::
  "network \<Rightarrow> manager \<Rightarrow> string \<Rightarrow> string \<Rightarrow> world \<Rightarrow>
     (manager_error + managed_summary) \<times> manager \<times> world" where
  "manager_generateSummary nw m transcript instructions w =
     (if length (services m) = 0 then (Inl NoServicesConfigured, m, w)
      else
        case try_services nw transcript instructions (services m) 0 None w of
          (Inr (i, res), w') \<Rightarrow> (Inr res, m\<lparr>currentServiceIndex := i\<rparr>, w')
        | (Inl lastError, w') \<Rightarrow>
            (Inl (AllServicesFailed (or_default lastError ''Unknown error'')), m, w'))"

text \<open>\<^verbatim>\<open>validateServices\<close>: the result object is a list of properties in insertion
  order; assigning to a name that is present replaces the value in place. In the model
  \<open>validateConnection\<close> returns for every adapter, so the \<^verbatim>\<open>catch\<close> branch of the source
  (status \<^verbatim>\<open>'error'\<close>) is never taken.\<close>

record validation_entry =
  v_configured :: bool
  connected :: bool
  v_status :: string

fun validate_loop ::
  "network \<Rightarrow> service list \<Rightarrow> (string \<times> validation_entry) list \<Rightarrow> world \<Rightarrow>
     (string \<times> validation_entry) list \<times> world" where
  "validate_loop nw [] results w = (results, w)"
| "validate_loop nw (s # ss) results w =
     (let st = getServiceStatus s in
      case validateConnection nw s w of
        (isValid, w1) \<Rightarrow>
          validate_loop nw ss
            (AList.update (name st)
               \<lparr>v_configured = configured st,
                connected = isValid,
                v_status = (if isValid then ''healthy'' else ''unavailable'')\<rparr>
               results)
            w1)"

definition validateServices ::
  "network \<Rightarrow> manager \<Rightarrow> world \<Rightarrow> (string \<times> validation_entry) list \<times> world" where
  "validateServices nw m w = validate_loop nw (services m) [] w"

text \<open>\<^verbatim>\<open>getServicesStatus\<close>\<close>

definition getServicesStatus :: "manager \<Rightarrow> service_status list" where
  "getServicesStatus m = map getServiceStatus (services m)"

subsection \<open>The error taxonomy in the words of the specification\<close>

text \<open>The mapping as the specification states it, to be compared with \<open>catch_error\<close>: a
  timeout or an I/O failure (no response arrived) is \<open>Timeout\<close>; 401 and 403 are
  \<open>InvalidCredentials\<close>; 429 is \<open>RateLimited\<close>; 5xx is \<open>ProviderUnavailable\<close>; any other
  response is \<open>ProviderError\<close> with the provider's message.\<close>

definition spec_error_kind :: "js_error \<Rightarrow> service_error" where
  "spec_error_kind e =
     (if code e = Some ''ECONNABORTED'' then Timeout
      else case response e of
        None \<Rightarrow> Timeout
      | Some r \<Rightarrow>
          if er_status r = 401 \<or> er_status r = 403 then InvalidCredentials
          else if er_status r = 429 then RateLimited
          else if 500 \<le> er_status r \<and> er_status r < 600 then ProviderUnavailable
          else ProviderError (error_text e))"

subsection \<open>Sample adapters, managers and networks\<close>

definition world0 :: world where
  "world0 = \<lparr>requests = [], console = []\<rparr>"

definition bare_env :: process_env where
  "bare_env = \<lparr>GROQ_API_KEY = None, OPENAI_API_KEY = None, getConfig_ai = None\<rparr>"

definition keyed_env :: process_env where
  "keyed_env = \<lparr>GROQ_API_KEY = Some ''gsk-env'', OPENAI_API_KEY = None, getConfig_ai = None\<rparr>"

definition key_only :: "string \<Rightarrow> svc_config" where
  "key_only k = \<lparr>cfg_apiKey = Some k, cfg_model = None, cfg_timeout = None\<rparr>"

definition both_keyed :: manager_config where
  "both_keyed = \<lparr>groq = ArgObject (key_only ''gsk-1''), openai = ArgObject (key_only ''sk-1'')\<rparr>"

definition groq_keyed :: service where
  "groq_keyed = new_service_obj bare_env Groq (key_only ''gsk-1'')"

definition openai_keyed :: service where
  "openai_keyed = new_service_obj bare_env OpenAI (key_only ''sk-1'')"

definition groq_bare :: service where
  "groq_bare = new_service_obj bare_env Groq empty_config"

definition openai_bare :: service where
  "openai_bare = new_service_obj bare_env OpenAI empty_config"

definition groq_env_keyed :: service where
  "groq_env_keyed = new_service_obj keyed_env Groq empty_config"

definition registry :: "service list \<Rightarrow> manager" where
  "registry ss = \<lparr>services = ss, currentServiceIndex = 0, mgr_config = None\<rparr>"

definition answers :: "string \<Rightarrow> http_outcome" where
  "answers c =
     Resolved \<lparr>status = 200, choices = Some [Choice (Some (Message (Some c)))],
               total_tokens = Some 42, type_error_text = []\<rparr>"

text \<open>The answer 200 to the request for the list of models, and an answer to the chat
  request whose first choice has \<^verbatim>\<open>message: null\<close>.\<close>

definition listing :: http_outcome where
  "listing =
     Resolved \<lparr>status = 200, choices = None, total_tokens = None, type_error_text = []\<rparr>"

definition null_message :: http_outcome where
  "null_message =
     Resolved \<lparr>status = 200, choices = Some [Choice None], total_tokens = None,
               type_error_text =
                 ''Cannot read properties of null (reading '' @ [CHR 0x27] @ ''content'' @
                 [CHR 0x27] @ '')''\<rparr>"

definition times_out :: http_outcome where
  "times_out =
     Rejected \<lparr>code = Some ''ECONNABORTED'', response = None,
               err_message = Some ''timeout of 30000ms exceeded''\<rparr>"

definition refused :: js_error where
  "refused =
     \<lparr>code = Some ''ECONNREFUSED'', response = None,
      err_message = Some ''connect ECONNREFUSED 127.0.0.1:443''\<rparr>"

definition http_failure :: "nat \<Rightarrow> string \<Rightarrow> js_error" where
  "http_failure n m =
     \<lparr>code = Some ''ERR_BAD_REQUEST'',
      response = Some \<lparr>er_status = n, er_data = Some \<lparr>error_message = Some m\<rparr>\<rparr>,
      err_message = Some ''Request failed''\<rparr>"

text \<open>A network that answers requests to the Groq host with \<open>g\<close> and all others with
  \<open>oa\<close>.\<close>

definition two_hosts :: "http_outcome \<Rightarrow> http_outcome \<Rightarrow> network" where
  "two_hosts g oa =
     \<lparr>respond = (\<lambda>r. if take 20 (url r) = ''https://api.groq.com'' then g else oa),
      date_now = 1700000000000\<rparr>"

subsection \<open>The entries of a validation\<close>

text \<open>The entry that the loop of \<^verbatim>\<open>validateServices\<close> stores for one adapter, with its
  key. What \<open>validateConnection\<close> returns does not depend on the world it starts from, so the
  empty world stands for any.\<close>

definition entry_of :: "network \<Rightarrow> service \<Rightarrow> string \<times> validation_entry" where
  "entry_of nw s =
     (name (getServiceStatus s),
      \<lparr>v_configured = configured (getServiceStatus s),
       connected = fst (validateConnection nw s world0),
       v_status = (if fst (validateConnection nw s world0) then ''healthy'' else ''unavailable'')\<rparr>)"

section \<open>Properties\<close>

subsection \<open>How the operations change the world\<close>

lemma console_issue [simp]: "console (issue r w) = console w"
  by (simp add: issue_def)

lemma requests_print [simp]: "requests (print l w) = requests w"
  by (simp add: print_def)

lemma console_print [simp]: "console (print l w) = console w @ [l]"
  by (simp add: print_def)

lemma requests_issue [simp]: "requests (issue r w) = requests w @ [r]"
  by (simp add: issue_def)

lemma catch_error_world:
  assumes "catch_error p e w = (err, w')"
  shows "set (console w) \<subseteq> set (console w')" and "requests w' = requests w"
  using assms by (auto simp: catch_error_def split: if_splits)

lemma generateSummary_world:
  fixes w :: world
  assumes "generateSummary nw s t i w = (res, w')"
  shows "set (console w) \<subseteq> set (console w')"
    and "requests w' =
      (if truthy (apiKey s) then requests w @ [summary_request s t i] else requests w)"
proof -
  let ?w1 = "issue (summary_request s t i) w"
  have caught: "set (console w) \<subseteq> set (console w2) \<and>
      requests w2 = requests w @ [summary_request s t i]"
    if "catch_error (cls s) e ?w1 = (err, w2)" for e err w2
    using catch_error_world [OF that] by simp
  show "set (console w) \<subseteq> set (console w')"
    using assms caught
    by (fastforce simp: generateSummary_def Let_def
        split: if_splits http_outcome.splits sum.splits prod.splits)
  show "requests w' =
      (if truthy (apiKey s) then requests w @ [summary_request s t i] else requests w)"
    using assms caught
    by (fastforce simp: generateSummary_def Let_def
        split: if_splits http_outcome.splits sum.splits prod.splits)
qed

lemma console_try_services:
  fixes w :: world
  assumes "try_services nw t i ss k le w = (res, w')"
  shows "set (console w) \<subseteq> set (console w')"
  using assms
proof (induction ss arbitrary: k le w)
  case Nil
  then show ?case by simp
next
  case (Cons s ss)
  show ?case
  proof (cases "configured (getServiceStatus s)")
    case False
    then show ?thesis
      using Cons.IH Cons.prems by (fastforce simp: Let_def)
  next
    case True
    let ?w1 = "print (ConsoleLog (''Attempting summary generation with '' @ name (getServiceStatus s))) w"
    obtain r w2 where g: "generateSummary nw s t i ?w1 = (r, w2)"
      by (cases "generateSummary nw s t i ?w1")
    have sub: "set (console w) \<subseteq> set (console w2)"
      using generateSummary_world(1) [OF g] by auto
    show ?thesis
    proof (cases r)
      case (Inr x)
      then show ?thesis using True g sub Cons.prems by (auto simp: Let_def)
    next
      case (Inl err)
      then have "try_services nw t i ss (k + 1) (Some (service_error_message (cls s) err))
          (print (failed_line s err) w2) = (res, w')"
        using True g Cons.prems by (simp add: Let_def)
      from Cons.IH [OF this] show ?thesis using sub by auto
    qed
  qed
qed


lemma catch_error_result:
  "fst (catch_error p e w) = fst (catch_error p e w')"
  by (simp add: catch_error_def)

lemma generateSummary_result:
  fixes w w' :: world
  shows "fst (generateSummary nw s t i w) = fst (generateSummary nw s t i w')"
proof -
  have "fst (case catch_error p e v of (err, w2) \<Rightarrow> (Inl err :: service_error + summary, w2)) =
      Inl (fst (catch_error p e v))" for p e and v :: world
    by (simp add: case_prod_unfold)
  then show ?thesis
    using catch_error_result
    by (simp add: generateSummary_def Let_def split: http_outcome.splits sum.splits)
qed


lemma try_services_failed_prefix:
  fixes w :: world
  assumes "\<forall>p\<in>set pre. configured (getServiceStatus p) \<longrightarrow>
      (\<forall>v::world. isl (fst (generateSummary nw p t i v)))"
  shows "\<exists>le' w1. try_services nw t i (pre @ rest) k le w =
        try_services nw t i rest (k + length pre) le' w1 \<and>
      set (console w) \<subseteq> set (console w1) \<and>
      (\<forall>p\<in>set pre. configured (getServiceStatus p) \<longrightarrow>
        (\<exists>e. fst (generateSummary nw p t i w) = Inl e \<and> failed_line p e \<in> set (console w1))) \<and>
      ((\<forall>p\<in>set pre. \<not> configured (getServiceStatus p)) \<longrightarrow>
        le' = le \<and> requests w1 = requests w)"
  using assms
proof (induction pre arbitrary: k le w)
  case Nil
  show ?case by (rule exI [of _ le], rule exI [of _ w]) simp
next
  case (Cons p pre)
  have rest: "\<forall>q\<in>set pre. configured (getServiceStatus q) \<longrightarrow>
      (\<forall>v::world. isl (fst (generateSummary nw q t i v)))"
    using Cons.prems by simp
  show ?case
  proof (cases "configured (getServiceStatus p)")
    case False
    let ?w1 = "print (ConsoleLog (''Skipping '' @ name (getServiceStatus p) @ '' - not configured'')) w"
    obtain le' w1 where run: "try_services nw t i (pre @ rest) (k + 1) le ?w1 =
        try_services nw t i rest (k + 1 + length pre) le' w1"
      and sub: "set (console ?w1) \<subseteq> set (console w1)"
      and rec: "\<forall>q\<in>set pre. configured (getServiceStatus q) \<longrightarrow>
        (\<exists>e. fst (generateSummary nw q t i ?w1) = Inl e \<and> failed_line q e \<in> set (console w1))"
      and none: "(\<forall>q\<in>set pre. \<not> configured (getServiceStatus q)) \<longrightarrow>
        le' = le \<and> requests w1 = requests ?w1"
      using Cons.IH [OF rest, of "k + 1" le ?w1] by blast
    have rec': "\<forall>q\<in>set pre. configured (getServiceStatus q) \<longrightarrow>
        (\<exists>e. fst (generateSummary nw q t i w) = Inl e \<and> failed_line q e \<in> set (console w1))"
      using rec generateSummary_result [of nw _ t i ?w1 w] by simp
    have step: "try_services nw t i ((p # pre) @ rest) k le w =
        try_services nw t i rest (k + length (p # pre)) le' w1"
      using False run by (simp add: Let_def add.commute add.left_commute)
    show ?thesis
      using step sub rec' none False
      by (intro exI [of _ le'] exI [of _ w1]) auto
  next
    case True
    let ?w1 = "print (ConsoleLog (''Attempting summary generation with '' @ name (getServiceStatus p))) w"
    obtain res w2 where g: "generateSummary nw p t i ?w1 = (res, w2)"
      by (cases "generateSummary nw p t i ?w1")
    have "isl (fst (generateSummary nw p t i ?w1))"
      using Cons.prems True by simp
    then obtain err where res: "res = Inl err"
      using g by (cases res) auto
    have err_w: "fst (generateSummary nw p t i w) = Inl err"
      using g res generateSummary_result [of nw p t i w ?w1] by simp
    have sub2: "set (console w) \<subseteq> set (console w2)"
      using generateSummary_world(1) [OF g] by auto
    let ?w3 = "print (failed_line p err) w2"
    let ?le = "Some (service_error_message (cls p) err)"
    obtain le' w1 where run: "try_services nw t i (pre @ rest) (k + 1) ?le ?w3 =
        try_services nw t i rest (k + 1 + length pre) le' w1"
      and sub: "set (console ?w3) \<subseteq> set (console w1)"
      and rec: "\<forall>q\<in>set pre. configured (getServiceStatus q) \<longrightarrow>
        (\<exists>e. fst (generateSummary nw q t i ?w3) = Inl e \<and> failed_line q e \<in> set (console w1))"
      using Cons.IH [OF rest, of "k + 1" ?le ?w3] by blast
    have rec': "\<forall>q\<in>set pre. configured (getServiceStatus q) \<longrightarrow>
        (\<exists>e. fst (generateSummary nw q t i w) = Inl e \<and> failed_line q e \<in> set (console w1))"
      using rec generateSummary_result [of nw _ t i ?w3 w] by simp
    have logged: "failed_line p err \<in> set (console w1)"
      using sub by auto
    have step: "try_services nw t i ((p # pre) @ rest) k le w =
        try_services nw t i rest (k + length (p # pre)) le' w1"
      using True g res run by (simp add: Let_def add.commute add.left_commute)
    show ?thesis
      using step sub sub2 rec' err_w logged True
      by (intro exI [of _ le'] exI [of _ w1]) auto
  qed
qed

lemma service_error_message_nonempty: "service_error_message p e \<noteq> []"
  by (cases e; cases p) simp_all

lemma try_services_all_failed:
  fixes w :: world
  assumes fails: "\<forall>p\<in>set pre. configured (getServiceStatus p) \<longrightarrow>
      (\<forall>v::world. isl (fst (generateSummary nw p t i v)))"
    and conf: "configured (getServiceStatus l)"
    and bad: "\<forall>v::world. fst (generateSummary nw l t i v) = Inl e"
    and skipped: "\<forall>p\<in>set post. \<not> configured (getServiceStatus p)"
  shows "\<exists>w'. try_services nw t i (pre @ l # post) k le w =
        (Inl (Some (service_error_message (cls l) e)), w') \<and>
      failed_line l e \<in> set (console w') \<and>
      (\<forall>p\<in>set pre. configured (getServiceStatus p) \<longrightarrow>
        (\<exists>e. fst (generateSummary nw p t i w) = Inl e \<and> failed_line p e \<in> set (console w')))"
proof -
  obtain le' w1 where run: "try_services nw t i (pre @ l # post) k le w =
        try_services nw t i (l # post) (k + length pre) le' w1"
    and rec: "\<forall>p\<in>set pre. configured (getServiceStatus p) \<longrightarrow>
        (\<exists>e. fst (generateSummary nw p t i w) = Inl e \<and> failed_line p e \<in> set (console w1))"
    using try_services_failed_prefix [OF fails, of "l # post" k le w] by blast
  let ?w2 = "print (ConsoleLog (''Attempting summary generation with '' @ name (getServiceStatus l))) w1"
  obtain res w3 where g: "generateSummary nw l t i ?w2 = (res, w3)"
    by (cases "generateSummary nw l t i ?w2")
  with bad have res: "res = Inl e" by (metis fst_conv)
  let ?w4 = "print (failed_line l e) w3"
  let ?le = "Some (service_error_message (cls l) e)"
  have step: "try_services nw t i (l # post) (k + length pre) le' w1 =
      try_services nw t i post (k + length pre + 1) ?le ?w4"
    using conf g res by (simp add: Let_def)
  have "\<forall>p\<in>set post. configured (getServiceStatus p) \<longrightarrow>
      (\<forall>v::world. isl (fst (generateSummary nw p t i v)))"
    using skipped by simp
  from try_services_failed_prefix [OF this, of "[]" "k + length pre + 1" ?le ?w4] skipped
  obtain w' where fin: "try_services nw t i post (k + length pre + 1) ?le ?w4 = (Inl ?le, w')"
    and sub: "set (console ?w4) \<subseteq> set (console w')"
    by auto
  have "set (console w1) \<subseteq> set (console w3)"
    using generateSummary_world(1) [OF g] by auto
  then have "set (console w1) \<subseteq> set (console w')" and "failed_line l e \<in> set (console w')"
    using sub by auto
  with run step fin rec show ?thesis by auto
qed

lemma try_services_none_configured:
  fixes w :: world
  assumes "\<forall>p\<in>set ss. \<not> configured (getServiceStatus p)"
  shows "\<exists>w'. try_services nw t i ss k le w = (Inl le, w') \<and> requests w' = requests w"
proof -
  have "\<forall>p\<in>set ss. configured (getServiceStatus p) \<longrightarrow>
      (\<forall>v::world. isl (fst (generateSummary nw p t i v)))"
    using assms by simp
  from try_services_failed_prefix [OF this, of "[]" k le w] assms
  show ?thesis by auto
qed

subsection \<open>Evaluation of the samples\<close>

lemmas sample_defs =
  world0_def bare_env_def keyed_env_def key_only_def both_keyed_def groq_keyed_def
  openai_keyed_def groq_bare_def openai_bare_def groq_env_keyed_def registry_def answers_def listing_def null_message_def
  times_out_def refused_def http_failure_def two_hosts_def new_service_obj_def empty_config_def
  js_or_def or_default_def num_or_default_def

lemmas adapter_defs =
  generateSummary_def summary_request_def read_summary_def catch_error_def
  response_status_def error_text_def provider_message_def error_detail_def interpolate_def
  type_error_def
  getServiceStatus_def Let_def

text \<open>A first choice with \<^verbatim>\<open>message: null\<close> ends in the last \<^verbatim>\<open>throw\<close> of the
  \<^verbatim>\<open>catch\<close> block, with the text of the engine's TypeError.\<close>

lemma null_message_is_a_service_error:
  "fst (generateSummary (two_hosts null_message times_out) groq_keyed ''hello'' [] world0) =
     Inl (ProviderError (''Cannot read properties of null (reading '' @ [CHR 0x27] @
       ''content'' @ [CHR 0x27] @ '')''))"
  by (simp add: sample_defs adapter_defs)

subsection \<open>Failover: the first provider that succeeds\<close>

text \<open>
  Claim C1 says that the manager returns the result of the first provider, in registry
  order, that is configured and does not fail, with its position as \<open>attemptedServices\<close>.
  The loop decides what is configured by the flag of \<open>getServiceStatus\<close>, which ignores a
  key taken from the environment. In one environment with \<^verbatim>\<open>GROQ_API_KEY\<close> set, a Groq
  adapter constructed without a configuration object is first in the registry and an OpenAI
  adapter with a configured key is second; both hosts answer. Groq holds a credential and
  its own \<open>generateSummary\<close> succeeds, yet the manager skips it without a request and
  returns the answer of OpenAI with \<open>attemptedServices = 2\<close>. On the constructor's own
  fallback path, in the same environment, the manager throws although Groq would answer.
\<close>

theorem environment_keyed_provider_is_skipped:
  "new_service keyed_env Groq ArgUndefined = Inr groq_env_keyed \<and>
   new_service keyed_env OpenAI (ArgObject (key_only ''sk-1'')) = Inr openai_keyed \<and>
   apiKey groq_env_keyed = Some ''gsk-env'' \<and>
   fst (generateSummary (two_hosts (answers ''X'') (answers ''Y'')) groq_env_keyed ''hello'' []
     world0) =
     Inr \<lparr>content = Some ''X'',
           metadata = \<lparr>md_service = ''groq'', md_model = ''llama3-8b-8192'', tokensUsed = 42,
             processingTime = 1700000000000\<rparr>\<rparr> \<and>
   manager_generateSummary (two_hosts (answers ''X'') (answers ''Y''))
     (registry [groq_env_keyed, openai_keyed]) ''hello'' [] world0 =
     (Inr \<lparr>m_content = Some ''Y'',
           m_metadata = \<lparr>md_service = ''openai'', md_model = ''gpt-3.5-turbo'', tokensUsed = 42,
             processingTime = 1700000000000, attemptedServices = 2,
             successfulService = ''OpenAI''\<rparr>\<rparr>,
      (registry [groq_env_keyed, openai_keyed])\<lparr>currentServiceIndex := 1\<rparr>,
      \<lparr>requests = [summary_request openai_keyed ''hello'' []],
       console = [ConsoleLog ''Skipping Groq - not configured'',
                  ConsoleLog ''Attempting summary generation with OpenAI'']\<rparr>) \<and>
   fst (new_manager keyed_env None world0) = Inr (registry [groq_env_keyed, openai_bare]) \<and>
   fst (manager_generateSummary (two_hosts (answers ''X'') (answers ''Y''))
     (registry [groq_env_keyed, openai_bare]) ''hello'' [] world0) =
     Inl (AllServicesFailed ''Unknown error'')"
  by (simp add: manager_generateSummary_def annotate_def new_manager_def initializeServices_def
      load_config_def add_both_def addService_def sample_defs adapter_defs issue_def print_def)

subsection \<open>What the constructor registers\<close>

lemma new_service_cls: "new_service pe p a = Inr s \<Longrightarrow> cls s = p"
  by (cases a) (auto simp: new_service_obj_def)

lemma new_service_key:
  "new_service pe p a = Inr s \<Longrightarrow> apiKey s = js_or (cfg_apiKey (config s)) (env_key pe p)"
  by (cases a) (auto simp: new_service_obj_def)

lemma add_both_services:
  assumes "add_both pe m a b = Inr m'"
  shows "\<exists>g oa. services m' = services m @ [g, oa] \<and> cls g = Groq \<and> cls oa = OpenAI \<and>
    apiKey g = js_or (cfg_apiKey (config g)) (GROQ_API_KEY pe) \<and>
    apiKey oa = js_or (cfg_apiKey (config oa)) (OPENAI_API_KEY pe)"
proof -
  from assms obtain g oa where g: "new_service pe Groq a = Inr g"
    and oa: "new_service pe OpenAI b = Inr oa"
    and m': "m' = addService (addService m g) oa"
    by (auto simp: add_both_def split: sum.splits)
  show ?thesis
    using new_service_cls [OF g] new_service_cls [OF oa] new_service_key [OF g]
      new_service_key [OF oa] m'
    by (simp add: addService_def)
qed

lemma new_manager_services:
  fixes w :: world
  assumes "fst (new_manager pe cfg w) = Inr m"
  shows "\<exists>g oa. services m = [g, oa] \<and> cls g = Groq \<and> cls oa = OpenAI \<and>
    apiKey g = js_or (cfg_apiKey (config g)) (GROQ_API_KEY pe) \<and>
    apiKey oa = js_or (cfg_apiKey (config oa)) (OPENAI_API_KEY pe)"
proof -
  let ?m0 = "\<lparr>services = [], currentServiceIndex = 0, mgr_config = cfg\<rparr>"
  from assms obtain a b where "add_both pe ?m0 a b = Inr m"
    by (auto simp: new_manager_def initializeServices_def split: prod.splits option.splits)
  from add_both_services [OF this] show ?thesis by simp
qed

text \<open>
  Claim C10. Every manager that the constructor returns, with or without a configuration
  argument, holds a \<open>GroqService\<close> followed by an \<open>OpenAIService\<close>: its list of services has
  at least two elements, and its \<open>generateSummary\<close> never throws the error
  \<^verbatim>\<open>'No AI services configured'\<close> of the empty registry.
\<close>

theorem constructor_registers_both:
  fixes w v :: world
  assumes "fst (new_manager pe cfg w) = Inr m"
  shows "map cls (services m) = [Groq, OpenAI] \<and> 2 \<le> length (services m) \<and>
    fst (manager_generateSummary nw m transcript instructions v) \<noteq> Inl NoServicesConfigured"
proof -
  from new_manager_services [OF assms] obtain g oa
    where sv: "services m = [g, oa]" and "cls g = Groq" and "cls oa = OpenAI"
    by blast
  then have "map cls (services m) = [Groq, OpenAI]" and "2 \<le> length (services m)"
    by simp_all
  moreover have "fst (manager_generateSummary nw m transcript instructions v) \<noteq>
      Inl NoServicesConfigured"
    using sv by (simp add: manager_generateSummary_def split: prod.splits sum.splits)
  ultimately show ?thesis by simp
qed

theorem constructor_registers_both_witness:
  "fst (new_manager bare_env None world0) = Inr (registry [groq_bare, openai_bare]) \<and>
   fst (new_manager bare_env (Some both_keyed) world0) =
     Inr ((registry [groq_keyed, openai_keyed])\<lparr>mgr_config := Some both_keyed\<rparr>) \<and>
   length (services (registry [groq_bare, openai_bare])) = 2 \<and>
   fst (manager_generateSummary (two_hosts times_out times_out)
     (registry [groq_bare, openai_bare]) ''hello'' [] world0) = Inl (AllServicesFailed ''Unknown error'')"
proof -
  have made: "fst (new_manager bare_env None world0) = Inr (registry [groq_bare, openai_bare])"
    by (simp add: new_manager_def initializeServices_def load_config_def add_both_def
        addService_def sample_defs)
  have made2: "fst (new_manager bare_env (Some both_keyed) world0) =
     Inr ((registry [groq_keyed, openai_keyed])\<lparr>mgr_config := Some both_keyed\<rparr>)"
    by (simp add: new_manager_def initializeServices_def load_config_def add_both_def
        addService_def sample_defs)
  have run: "fst (manager_generateSummary (two_hosts times_out times_out)
     (registry [groq_bare, openai_bare]) ''hello'' [] world0) = Inl (AllServicesFailed ''Unknown error'')"
    by (simp add: manager_generateSummary_def sample_defs adapter_defs)
  from constructor_registers_both [OF made, of "two_hosts times_out times_out" "''hello''" "[]" world0]
    made made2 run
  show ?thesis by (simp add: registry_def)
qed

subsection \<open>The status of an adapter whose key comes from the environment\<close>

text \<open>
  Claim C8. \<open>getServiceStatus\<close> is a pure function of the adapter, but its \<open>configured\<close>
  field reads \<^verbatim>\<open>this.config.apiKey\<close> and not the credential \<^verbatim>\<open>this.apiKey\<close>. An adapter
  constructed without a configuration object while \<^verbatim>\<open>GROQ_API_KEY\<close> is set has a non-empty
  credential, and its own \<open>generateSummary\<close> posts a request with it, yet its status says
  \<open>configured = False\<close> and the manager skips it.
\<close>

theorem status_ignores_environment_key:
  "new_service keyed_env Groq ArgUndefined = Inr groq_env_keyed \<and>
   apiKey groq_env_keyed = Some ''gsk-env'' \<and>
   \<not> configured (getServiceStatus groq_env_keyed) \<and>
   requests (snd (generateSummary (two_hosts (answers ''X'') times_out) groq_env_keyed
     ''hello'' [] world0)) = [summary_request groq_env_keyed ''hello'' []] \<and>
   fst (manager_generateSummary (two_hosts (answers ''X'') times_out)
     (registry [groq_env_keyed]) ''hello'' [] world0) = Inl (AllServicesFailed ''Unknown error'')"
  by (simp add: manager_generateSummary_def sample_defs adapter_defs issue_def)

subsection \<open>Failover: every configured provider fails\<close>

text \<open>
  Claim C2, as stated: when every configured provider fails, the error carries one entry
  per configured provider. It does not. The manager keeps only \<^verbatim>\<open>lastError\<close>: a run in
  which Groq times out and a run in which Groq is rate limited, OpenAI answering 401 in
  both, throw the same error, whose message names the failure of OpenAI alone.
\<close>

theorem all_failed_carries_last_message_only:
  "fst (manager_generateSummary (two_hosts times_out (Rejected (http_failure 401 ''bad key'')))
     (registry [groq_keyed, openai_keyed]) ''hello'' [] world0) =
     Inl (AllServicesFailed ''Invalid OpenAI API key'') \<and>
   fst (manager_generateSummary
     (two_hosts (Rejected (http_failure 429 ''slow down'')) (Rejected (http_failure 401 ''bad key'')))
     (registry [groq_keyed, openai_keyed]) ''hello'' [] world0) =
     Inl (AllServicesFailed ''Invalid OpenAI API key'') \<and>
   fst (generateSummary (two_hosts times_out (Rejected (http_failure 401 ''bad key'')))
     groq_keyed ''hello'' [] world0) = Inl Timeout \<and>
   fst (generateSummary
     (two_hosts (Rejected (http_failure 429 ''slow down'')) (Rejected (http_failure 401 ''bad key'')))
     groq_keyed ''hello'' [] world0) = Inl RateLimited \<and>
   manager_error_message (AllServicesFailed ''Invalid OpenAI API key'') =
     ''All AI services failed. Last error: Invalid OpenAI API key''"
  by (simp add: manager_generateSummary_def sample_defs adapter_defs)

text \<open>
  Claim C2, amended. Take a registry in which the configured flag of every adapter agrees
  with its holding a credential. Let \<open>l\<close> be the last adapter with a credential and let every
  adapter with a credential fail, \<open>l\<close> with \<open>e\<close>. Then the manager's \<open>generateSummary\<close>
  throws \<^verbatim>\<open>All AI services failed. Last error: \<close> followed by the message of \<open>e\<close>, and
  leaves the manager unchanged. The error carries that one message only; for each adapter
  with a credential, \<^verbatim>\<open>console.error\<close> prints the name of its class with \<^verbatim>\<open> failed:\<close>
  and the message of its failure.
\<close>

theorem manager_generateSummary_all_failed:
  fixes w :: world
  assumes "services m = pre @ l # post"
    and "\<forall>p\<in>set (services m). configured (getServiceStatus p) = truthy (apiKey p)"
    and "\<forall>p\<in>set pre. truthy (apiKey p) \<longrightarrow>
      (\<forall>v::world. isl (fst (generateSummary nw p transcript instructions v)))"
    and "truthy (apiKey l)"
    and "\<forall>v::world. fst (generateSummary nw l transcript instructions v) = Inl e"
    and "\<forall>p\<in>set post. \<not> truthy (apiKey p)"
  shows "\<exists>w'.
      manager_generateSummary nw m transcript instructions w =
        (Inl (AllServicesFailed (service_error_message (cls l) e)), m, w') \<and>
      manager_error_message (AllServicesFailed (service_error_message (cls l) e)) =
        ''All AI services failed. Last error: '' @ service_error_message (cls l) e \<and>
      ConsoleError [Str (constructor_name (cls l) @ '' failed:''),
                    Str (service_error_message (cls l) e)] \<in> set (console w') \<and>
      (\<forall>p\<in>set pre. truthy (apiKey p) \<longrightarrow>
        (\<exists>e'. fst (generateSummary nw p transcript instructions w) = Inl e' \<and>
              ConsoleError [Str (constructor_name (cls p) @ '' failed:''),
                            Str (service_error_message (cls p) e')] \<in> set (console w')))"
proof -
  have a: "\<forall>p\<in>set pre. configured (getServiceStatus p) \<longrightarrow>
      (\<forall>v::world. isl (fst (generateSummary nw p transcript instructions v)))"
    using assms(1-3) by simp
  have b: "configured (getServiceStatus l)"
    using assms(1,2,4) by simp
  have c: "\<forall>p\<in>set post. \<not> configured (getServiceStatus p)"
    using assms(1,2,6) by simp
  obtain w' where run: "try_services nw transcript instructions (pre @ l # post) 0 None w =
      (Inl (Some (service_error_message (cls l) e)), w')"
    and last: "failed_line l e \<in> set (console w')"
    and rec: "\<forall>p\<in>set pre. configured (getServiceStatus p) \<longrightarrow>
        (\<exists>e'. fst (generateSummary nw p transcript instructions w) = Inl e' \<and>
              failed_line p e' \<in> set (console w'))"
    using try_services_all_failed [OF a b assms(5) c, of 0 None w] by auto
  have "or_default (Some (service_error_message (cls l) e)) ''Unknown error'' =
      service_error_message (cls l) e"
    using service_error_message_nonempty [of "cls l" e] by (simp add: or_default_def)
  then have thrown: "manager_generateSummary nw m transcript instructions w =
      (Inl (AllServicesFailed (service_error_message (cls l) e)), m, w')"
    using run assms(1) by (simp add: manager_generateSummary_def)
  have rec': "\<forall>p\<in>set pre. truthy (apiKey p) \<longrightarrow>
        (\<exists>e'. fst (generateSummary nw p transcript instructions w) = Inl e' \<and>
              ConsoleError [Str (constructor_name (cls p) @ '' failed:''),
                            Str (service_error_message (cls p) e')] \<in> set (console w'))"
    using rec assms(1,2) by (simp add: failed_line_def)
  show ?thesis
    using thrown last rec' by (auto simp: failed_line_def)
qed

theorem manager_generateSummary_all_failed_witness:
  "\<exists>w'. manager_generateSummary
       (two_hosts times_out (Rejected (http_failure 401 ''bad key'')))
       (registry [groq_keyed, openai_keyed, groq_bare]) ''hello'' [] world0 =
     (Inl (AllServicesFailed ''Invalid OpenAI API key''),
      registry [groq_keyed, openai_keyed, groq_bare], w') \<and>
     manager_error_message (AllServicesFailed ''Invalid OpenAI API key'') =
       ''All AI services failed. Last error: Invalid OpenAI API key'' \<and>
     ConsoleError [Str ''OpenAIService failed:'', Str ''Invalid OpenAI API key''] \<in>
       set (console w') \<and>
     ConsoleError [Str ''GroqService failed:'', Str ''Groq service timeout - please try again'']
       \<in> set (console w')"
proof -
  let ?nw = "two_hosts times_out (Rejected (http_failure 401 ''bad key''))"
  let ?m = "registry [groq_keyed, openai_keyed, groq_bare]"
  have h1: "services ?m = [groq_keyed] @ openai_keyed # [groq_bare]"
    by (simp add: registry_def)
  have h2: "\<forall>p\<in>set (services ?m). configured (getServiceStatus p) = truthy (apiKey p)"
    by (simp add: sample_defs getServiceStatus_def)
  have groq: "fst (generateSummary ?nw groq_keyed ''hello'' [] v) = Inl Timeout"
    for v :: world
    by (simp add: sample_defs adapter_defs)
  then have h3: "\<forall>p\<in>set [groq_keyed]. truthy (apiKey p) \<longrightarrow>
      (\<forall>v::world. isl (fst (generateSummary ?nw p ''hello'' [] v)))"
    by simp
  have h4: "truthy (apiKey openai_keyed)"
    by (simp add: sample_defs)
  have h5: "\<forall>v::world. fst (generateSummary ?nw openai_keyed ''hello'' [] v) = Inl InvalidCredentials"
    by (simp add: sample_defs adapter_defs)
  have h6: "\<forall>p\<in>set [groq_bare]. \<not> truthy (apiKey p)"
    by (simp add: sample_defs)
  have h7: "truthy (apiKey groq_keyed)"
    by (simp add: sample_defs)
  from manager_generateSummary_all_failed [OF h1 h2 h3 h4 h5 h6, of world0] groq [of world0] h7
  show ?thesis
    by (auto simp: openai_keyed_def groq_keyed_def new_service_obj_def)
qed

subsection \<open>Failover: no provider has a credential\<close>

text \<open>
  Claim C3, as stated: with every credential empty the error is a separate one, distinct
  from the error of exhaustion. It is not: the loop skips both adapters, \<^verbatim>\<open>lastError\<close>
  stays \<^verbatim>\<open>undefined\<close>, and the \<^verbatim>\<open>throw\<close> after the loop fires with \<^verbatim>\<open>Unknown error\<close>. The
  error \<^verbatim>\<open>No AI services configured\<close> belongs to the empty registry.
\<close>

theorem unconfigured_gives_exhaustion_error:
  "apiKey groq_bare = None \<and> apiKey openai_bare = None \<and>
   fst (manager_generateSummary (two_hosts (answers ''X'') (answers ''Y''))
     (registry [groq_bare, openai_bare]) ''hello'' [] world0) =
     Inl (AllServicesFailed ''Unknown error'') \<and>
   manager_error_message (AllServicesFailed ''Unknown error'') =
     ''All AI services failed. Last error: Unknown error'' \<and>
   AllServicesFailed ''Unknown error'' \<noteq> NoServicesConfigured"
  by (simp add: manager_generateSummary_def sample_defs adapter_defs)

text \<open>
  Claim C3, amended. For a manager returned by the constructor whose adapters all have an
  empty credential, \<open>generateSummary\<close> issues no request and throws
  \<^verbatim>\<open>All AI services failed. Last error: Unknown error\<close>.
\<close>

theorem manager_generateSummary_no_credentials:
  fixes w0 w :: world
  assumes "fst (new_manager pe cfg w0) = Inr m"
    and "\<forall>p\<in>set (services m). \<not> truthy (apiKey p)"
  shows "\<exists>w'.
      manager_generateSummary nw m transcript instructions w =
        (Inl (AllServicesFailed ''Unknown error''), m, w') \<and>
      requests w' = requests w"
proof -
  from new_manager_services [OF assms(1)] obtain g oa
    where sv: "services m = [g, oa]"
      and kg: "apiKey g = js_or (cfg_apiKey (config g)) (GROQ_API_KEY pe)"
      and ko: "apiKey oa = js_or (cfg_apiKey (config oa)) (OPENAI_API_KEY pe)"
    by blast
  have "\<not> truthy (cfg_apiKey (config g))" and "\<not> truthy (cfg_apiKey (config oa))"
    using assms(2) sv kg ko by (auto simp: js_or_def split: if_splits)
  then have "\<forall>p\<in>set (services m). \<not> configured (getServiceStatus p)"
    using sv by (simp add: getServiceStatus_def)
  from try_services_none_configured [OF this, of nw transcript instructions 0 None w]
  obtain w' where "try_services nw transcript instructions (services m) 0 None w = (Inl None, w')"
    and "requests w' = requests w"
    by blast
  then show ?thesis
    using sv by (simp add: manager_generateSummary_def or_default_def)
qed

theorem manager_generateSummary_no_credentials_witness:
  "\<exists>w'. manager_generateSummary (two_hosts (answers ''X'') (answers ''Y''))
       (registry [groq_bare, openai_bare]) ''hello'' [] world0 =
     (Inl (AllServicesFailed ''Unknown error''), registry [groq_bare, openai_bare], w') \<and>
     requests w' = []"
proof -
  have h1: "fst (new_manager bare_env None world0) = Inr (registry [groq_bare, openai_bare])"
    by (simp add: new_manager_def initializeServices_def load_config_def add_both_def
        addService_def sample_defs)
  have h2: "\<forall>p\<in>set (services (registry [groq_bare, openai_bare])). \<not> truthy (apiKey p)"
    by (simp add: sample_defs)
  from manager_generateSummary_no_credentials [OF h1 h2, of "two_hosts (answers ''X'') (answers ''Y'')"
      "''hello''" "[]" world0]
  show ?thesis by (simp add: world0_def)
qed

subsection \<open>An adapter and a blank transcript\<close>




subsection \<open>An adapter and an empty answer\<close>

text \<open>
  Claim C5, as stated: an answer with empty content is a failure of the provider and the
  manager goes on to the next one. It is not: the content is returned as it came, and the
  manager returns the result of Groq, the first adapter, without asking OpenAI.
\<close>

theorem empty_content_is_a_success:
  "fst (generateSummary (two_hosts (answers []) (answers ''Y'')) groq_keyed ''hello'' [] world0) =
     Inr \<lparr>content = Some [],
           metadata = \<lparr>md_service = ''groq'', md_model = ''llama3-8b-8192'', tokensUsed = 42,
             processingTime = 1700000000000\<rparr>\<rparr> \<and>
   fst (manager_generateSummary (two_hosts (answers []) (answers ''Y''))
     (registry [groq_keyed, openai_keyed]) ''hello'' [] world0) =
     Inr \<lparr>m_content = Some [],
           m_metadata = \<lparr>md_service = ''groq'', md_model = ''llama3-8b-8192'', tokensUsed = 42,
             processingTime = 1700000000000, attemptedServices = 1,
             successfulService = ''Groq''\<rparr>\<rparr>"
  by (simp add: manager_generateSummary_def annotate_def sample_defs adapter_defs)

text \<open>
  Claim C5, amended. An adapter's \<open>generateSummary\<close> returns a result exactly when it has an
  API key, the request resolves and the response has a first choice with a message; the
  content of the result is the content of that message, unchanged, be it empty or
  \<^verbatim>\<open>null\<close>.
\<close>

theorem generateSummary_success_iff:
  fixes w :: world
  shows "fst (generateSummary nw s transcript instructions w) = Inr res \<longleftrightarrow>
    truthy (apiKey s) \<and>
    (\<exists>r c cs. respond nw (summary_request s transcript instructions) = Resolved r \<and>
      choices r = Some (Choice (Some (Message c)) # cs) \<and>
      res = \<lparr>content = c,
             metadata = \<lparr>md_service = service_tag (cls s), md_model = model s,
               tokensUsed = num_or_default (total_tokens r) 0,
               processingTime = date_now nw\<rparr>\<rparr>)"
proof -
  have caught: "fst (case catch_error p e v of (err, w2) \<Rightarrow> (Inl err :: service_error + summary, w2))
      \<noteq> Inr res" for p e and v :: world
    by (simp add: case_prod_unfold)
  have read: "read_summary nw s r = Inr res \<longleftrightarrow>
      (\<exists>c cs. choices r = Some (Choice (Some (Message c)) # cs) \<and>
        res = \<lparr>content = c,
               metadata = \<lparr>md_service = service_tag (cls s), md_model = model s,
                 tokensUsed = num_or_default (total_tokens r) 0,
                 processingTime = date_now nw\<rparr>\<rparr>)" for r
    by (auto simp: read_summary_def split: option.splits list.splits choice.splits message.splits)
  show ?thesis
  proof (cases "truthy (apiKey s)")
    case False
    then show ?thesis by (simp add: generateSummary_def)
  next
    case True
    show ?thesis
    proof (cases "respond nw (summary_request s transcript instructions)")
      case (Rejected e)
      then show ?thesis using True caught by (simp add: generateSummary_def Let_def)
    next
      case (Resolved r)
      show ?thesis
      proof (cases "read_summary nw s r")
        case (Inl e)
        then show ?thesis
          using True Resolved caught read [of r] by (simp add: generateSummary_def Let_def)
      next
        case (Inr x)
        then show ?thesis
          using True Resolved read [of r] by (auto simp: generateSummary_def Let_def)
      qed
    qed
  qed
qed

theorem generateSummary_success_iff_witness:
  "fst (generateSummary (two_hosts (answers []) (answers ''Y'')) groq_keyed ''hello'' [] world0) =
     Inr \<lparr>content = Some [],
           metadata = \<lparr>md_service = ''groq'', md_model = ''llama3-8b-8192'', tokensUsed = 42,
             processingTime = 1700000000000\<rparr>\<rparr>"
  using generateSummary_success_iff [of "two_hosts (answers []) (answers ''Y'')" groq_keyed
      "''hello''" "[]" world0]
  by (simp add: sample_defs adapter_defs)

subsection \<open>The errors of an adapter\<close>

text \<open>
  Claim C6, as stated: the \<^verbatim>\<open>catch\<close> block follows \<open>spec_error_kind\<close>. It does not, at two
  places: a response with status 403 and a connection that is refused both end in the last
  \<^verbatim>\<open>throw\<close>, the one of \<^verbatim>\<open>service error:\<close>, where the specification has
  \<open>InvalidCredentials\<close> and \<open>Timeout\<close>.
\<close>

theorem forbidden_and_refused_are_service_errors:
  "fst (generateSummary (two_hosts (Rejected (http_failure 403 ''Forbidden'')) times_out)
     groq_keyed ''hello'' [] world0) = Inl (ProviderError ''Forbidden'') \<and>
   spec_error_kind (http_failure 403 ''Forbidden'') = InvalidCredentials \<and>
   service_error_message Groq (ProviderError ''Forbidden'') = ''Groq service error: Forbidden'' \<and>
   service_error_message Groq InvalidCredentials = ''Invalid Groq API key'' \<and>
   fst (generateSummary (two_hosts (Rejected refused) times_out)
     groq_keyed ''hello'' [] world0) = Inl (ProviderError ''connect ECONNREFUSED 127.0.0.1:443'') \<and>
   spec_error_kind refused = Timeout"
  by (simp add: spec_error_kind_def sample_defs adapter_defs)

lemma generateSummary_rejected:
  fixes w :: world
  assumes "truthy (apiKey s)"
    and "respond nw (summary_request s transcript instructions) = Rejected e"
  shows "fst (generateSummary nw s transcript instructions w) =
    Inl (fst (catch_error (cls s) e w))"
  using assms catch_error_result [of "cls s" e "issue (summary_request s transcript instructions) w" w]
  by (simp add: generateSummary_def Let_def case_prod_unfold)

text \<open>
  Claim C6, amended. When the request of an adapter with a key is rejected with \<open>e\<close>:
  the code \<^verbatim>\<open>ECONNABORTED\<close> gives \<open>Timeout\<close>; otherwise status 401 gives
  \<open>InvalidCredentials\<close>, status 429 gives \<open>RateLimited\<close>, a status of 500 or more gives
  \<open>ProviderUnavailable\<close>, and everything else (no response at all, or any other status, 403
  among them) gives \<open>ProviderError\<close>, whose message is \<^verbatim>\<open>service error:\<close> after the name of
  the provider, followed by the provider's own message when there is a non-empty one.
\<close>

theorem generateSummary_error_mapping:
  fixes w :: world
  assumes "truthy (apiKey s)"
    and "respond nw (summary_request s transcript instructions) = Rejected e"
  shows "(code e = Some ''ECONNABORTED'' \<longrightarrow>
      fst (generateSummary nw s transcript instructions w) = Inl Timeout) \<and>
    (code e \<noteq> Some ''ECONNABORTED'' \<longrightarrow>
      (response_status e = Some 401 \<longrightarrow>
        fst (generateSummary nw s transcript instructions w) = Inl InvalidCredentials) \<and>
      (response_status e = Some 429 \<longrightarrow>
        fst (generateSummary nw s transcript instructions w) = Inl RateLimited) \<and>
      ((\<exists>n. response_status e = Some n \<and> 500 \<le> n) \<longrightarrow>
        fst (generateSummary nw s transcript instructions w) = Inl ProviderUnavailable) \<and>
      (response_status e = None \<or>
       (\<exists>n. response_status e = Some n \<and> n \<noteq> 401 \<and> n \<noteq> 429 \<and> n < 500) \<longrightarrow>
        fst (generateSummary nw s transcript instructions w) = Inl (ProviderError (error_text e)) \<and>
        (\<forall>m. provider_message e = Some m \<and> m \<noteq> [] \<longrightarrow>
          service_error_message (cls s) (ProviderError (error_text e)) =
            status_name (cls s) @ '' service error: '' @ m)))"
proof -
  have "\<forall>m. provider_message e = Some m \<and> m \<noteq> [] \<longrightarrow> error_text e = m"
    by (simp add: error_text_def js_or_def interpolate_def)
  then show ?thesis
    unfolding generateSummary_rejected [OF assms]
    by (auto simp: catch_error_def)
qed

theorem generateSummary_error_mapping_witness:
  "fst (generateSummary (two_hosts (Rejected (http_failure 404 ''model not found'')) times_out)
     groq_keyed ''hello'' [] world0) = Inl (ProviderError ''model not found'') \<and>
   service_error_message Groq (ProviderError ''model not found'') =
     ''Groq service error: model not found'' \<and>
   fst (generateSummary (two_hosts (Rejected (http_failure 404 ''model not found'')) times_out)
     openai_keyed ''hello'' [] world0) = Inl Timeout"
proof -
  let ?nw = "two_hosts (Rejected (http_failure 404 ''model not found'')) times_out"
  have k: "truthy (apiKey groq_keyed)" and k': "truthy (apiKey openai_keyed)"
    by (simp_all add: sample_defs)
  have r: "respond ?nw (summary_request groq_keyed ''hello'' []) =
      Rejected (http_failure 404 ''model not found'')"
    by (simp add: sample_defs summary_request_def)
  have r': "respond ?nw (summary_request openai_keyed ''hello'' []) =
      Rejected \<lparr>code = Some ''ECONNABORTED'', response = None,
               err_message = Some ''timeout of 30000ms exceeded''\<rparr>"
    by (simp add: sample_defs summary_request_def)
  from generateSummary_error_mapping [OF k r, of world0]
    generateSummary_error_mapping [OF k' r', of world0]
  show ?thesis
    by (simp add: sample_defs response_status_def provider_message_def error_text_def
        interpolate_def)
qed

subsection \<open>The request an adapter builds\<close>

lemma trim_decomposition:
  "\<exists>pre suf. s = pre @ trim s @ suf \<and>
     (\<forall>c\<in>set pre \<union> set suf. is_js_space c) \<and>
     (trim s = [] \<or> \<not> is_js_space (hd (trim s)) \<and> \<not> is_js_space (last (trim s)))"
proof -
  let ?d = "dropWhile is_js_space s"
  let ?pre = "takeWhile is_js_space s"
  let ?suf = "rev (takeWhile is_js_space (rev ?d))"
  have t: "trim s = rev (dropWhile is_js_space (rev ?d))"
    by (simp add: trim_def)
  have "rev (dropWhile is_js_space (rev ?d)) @ rev (takeWhile is_js_space (rev ?d)) =
      rev (takeWhile is_js_space (rev ?d) @ dropWhile is_js_space (rev ?d))"
    by (simp only: rev_append)
  also have "\<dots> = ?d"
    by simp
  finally have d: "?d = trim s @ ?suf"
    using t by simp
  have whole: "s = ?pre @ trim s @ ?suf"
    using d takeWhile_dropWhile_id [of is_js_space s] by simp
  have spaces: "\<forall>c\<in>set ?pre \<union> set ?suf. is_js_space c"
    by (auto dest: set_takeWhileD)
  have ends: "\<not> is_js_space (hd (trim s)) \<and> \<not> is_js_space (last (trim s))"
    if ne: "trim s \<noteq> []"
  proof -
    have "?d \<noteq> []" using d ne by (metis append_is_Nil_conv)
    then have "\<not> is_js_space (hd ?d)" by (rule hd_dropWhile)
    moreover have "hd ?d = hd (trim s)"
      using d ne by (metis hd_append2)
    moreover have "dropWhile is_js_space (rev ?d) \<noteq> []"
      using t ne by (metis rev.simps(1))
    then have "\<not> is_js_space (hd (dropWhile is_js_space (rev ?d)))"
      by (rule hd_dropWhile)
    moreover have "last (trim s) = hd (dropWhile is_js_space (rev ?d))"
      using t ne by (simp add: last_rev)
    ultimately show ?thesis by simp
  qed
  show ?thesis
    using whole spaces ends by blast
qed

text \<open>
  Claim C7. An adapter with a key issues exactly one request, a POST to
  \<^verbatim>\<open>/chat/completions\<close> under its base URL, with two messages. The system message is the
  fixed text of the summarizing assistant. For the user message the instructions are split
  into leading white space, a core that neither starts nor ends with white space, and
  trailing white space; the message is the core, or the fixed default text (spelled out
  below) when the core is empty, followed by an empty line, the line \<^verbatim>\<open>Transcript:\<close> and
  the transcript.
\<close>

theorem generateSummary_request:
  fixes w :: world
  assumes "truthy (apiKey s)"
  shows "\<exists>pre core suf req b sys usr.
    instructions = pre @ core @ suf \<and>
    (\<forall>c\<in>set pre \<union> set suf. (of_char c :: nat) \<in> {9, 10, 11, 12, 13, 32, 160}) \<and>
    (core = [] \<or>
      (of_char (hd core) :: nat) \<notin> {9, 10, 11, 12, 13, 32, 160} \<and>
      (of_char (last core) :: nat) \<notin> {9, 10, 11, 12, 13, 32, 160}) \<and>
    requests (snd (generateSummary nw s transcript instructions w)) = requests w @ [req] \<and>
    req_method req = POST \<and>
    url req = baseURL s @ ''/chat/completions'' \<and>
    body req = Some b \<and>
    messages b = [sys, usr] \<and>
    role sys = ''system'' \<and>
    msg_content sys =
      ''You are a helpful assistant that specializes in summarizing meeting transcripts.'' \<and>
    role usr = ''user'' \<and>
    msg_content usr =
      (if core = [] then
         ''Please provide a comprehensive summary of this meeting transcript. Include:'' @
         [CHR 0x0A] @ ''1. Key discussion points'' @
         [CHR 0x0A] @ ''2. Decisions made'' @
         [CHR 0x0A] @ ''3. Action items and assignments'' @
         [CHR 0x0A] @ ''4. Next steps'' @
         [CHR 0x0A, CHR 0x0A] @
         ''Format the response in clear sections with bullet points where appropriate.''
       else core) @
      [CHR 0x0A, CHR 0x0A] @ ''Transcript:'' @ [CHR 0x0A] @ transcript"
proof -
  obtain pre suf where whole: "instructions = pre @ trim instructions @ suf"
    and spaces: "\<forall>c\<in>set pre \<union> set suf. is_js_space c"
    and ends: "trim instructions = [] \<or>
      \<not> is_js_space (hd (trim instructions)) \<and> \<not> is_js_space (last (trim instructions))"
    using trim_decomposition [of instructions] by blast
  obtain res w' where g: "generateSummary nw s transcript instructions w = (res, w')"
    by (cases "generateSummary nw s transcript instructions w")
  let ?req = "summary_request s transcript instructions"
  have sent: "requests (snd (generateSummary nw s transcript instructions w)) = requests w @ [?req]"
    using generateSummary_world(2) [OF g] g assms by simp
  have shape: "req_method ?req = POST \<and> url ?req = baseURL s @ ''/chat/completions'' \<and>
      (\<exists>b sys usr. body ?req = Some b \<and> messages b = [sys, usr] \<and> role sys = ''system'' \<and>
        msg_content sys =
          ''You are a helpful assistant that specializes in summarizing meeting transcripts.'' \<and>
        role usr = ''user'' \<and>
        msg_content usr =
          (if trim instructions = [] then
             ''Please provide a comprehensive summary of this meeting transcript. Include:'' @
             [CHR 0x0A] @ ''1. Key discussion points'' @
             [CHR 0x0A] @ ''2. Decisions made'' @
             [CHR 0x0A] @ ''3. Action items and assignments'' @
             [CHR 0x0A] @ ''4. Next steps'' @
             [CHR 0x0A, CHR 0x0A] @
             ''Format the response in clear sections with bullet points where appropriate.''
           else trim instructions) @
          [CHR 0x0A, CHR 0x0A] @ ''Transcript:'' @ [CHR 0x0A] @ transcript)"
    by (simp add: summary_request_def system_content_def fullPrompt_def prompt_def
        or_default_def defaultInstructions_def nl_def)
  show ?thesis
    using whole spaces ends sent shape
    unfolding is_js_space_def
    by (intro exI [of _ pre] exI [of _ "trim instructions"] exI [of _ suf] exI [of _ ?req]) blast
qed

theorem generateSummary_request_witness:
  "map (\<lambda>r. (url r, map (\<lambda>m. (role m, msg_content m))
       (case body r of None \<Rightarrow> [] | Some b \<Rightarrow> messages b)))
     (requests (snd (generateSummary (two_hosts (answers ''X'') times_out) groq_keyed ''hello''
       ''  brief '' world0))) =
   [(''https://api.groq.com/openai/v1/chat/completions'',
     [(''system'',
       ''You are a helpful assistant that specializes in summarizing meeting transcripts.''),
      (''user'', ''brief'' @ [CHR 0x0A, CHR 0x0A] @ ''Transcript:'' @ [CHR 0x0A] @ ''hello'')])] \<and>
   map (\<lambda>r. map msg_content (case body r of None \<Rightarrow> [] | Some b \<Rightarrow> messages b))
     (requests (snd (generateSummary (two_hosts (answers ''X'') times_out) groq_keyed ''hello''
       ''  '' world0))) =
   [[''You are a helpful assistant that specializes in summarizing meeting transcripts.'',
     ''Please provide a comprehensive summary of this meeting transcript. Include:'' @
     [CHR 0x0A] @ ''1. Key discussion points'' @
     [CHR 0x0A] @ ''2. Decisions made'' @
     [CHR 0x0A] @ ''3. Action items and assignments'' @
     [CHR 0x0A] @ ''4. Next steps'' @
     [CHR 0x0A, CHR 0x0A] @
     ''Format the response in clear sections with bullet points where appropriate.'' @
     [CHR 0x0A, CHR 0x0A] @ ''Transcript:'' @ [CHR 0x0A] @ ''hello'']]"
proof -
  have k: "truthy (apiKey groq_keyed)"
    by (simp add: sample_defs)
  have t1: "trim ''  brief '' = ''brief''" and t2: "trim ''  '' = []"
    by (simp_all add: trim_def is_js_space_def)
  from generateSummary_request [OF k, of "''  brief ''" "two_hosts (answers ''X'') times_out"
      "''hello''" world0]
    generateSummary_request [OF k, of "''  ''" "two_hosts (answers ''X'') times_out"
      "''hello''" world0]
  show ?thesis
    by (simp add: sample_defs adapter_defs issue_def fullPrompt_def prompt_def t1 t2
        system_content_def defaultInstructions_def nl_def)
qed

subsection \<open>Validation of the services\<close>

lemma update_fresh:
  "k \<notin> fst ` set al \<Longrightarrow> AList.update k v al = al @ [(k, v)]"
  by (induction al) auto

lemma validateConnection_world:
  fixes w :: world
  shows "snd (validateConnection nw s w) =
      (if truthy (apiKey s) then issue (models_request s) w else w)"
  by (simp add: validateConnection_def Let_def split: http_outcome.splits)

lemma validateConnection_result:
  fixes w w' :: world
  shows "fst (validateConnection nw s w) = fst (validateConnection nw s w')"
  by (simp add: validateConnection_def Let_def split: http_outcome.splits)

lemma validate_loop_distinct:
  fixes w :: world
  assumes "distinct (map (\<lambda>s. name (getServiceStatus s)) ss)"
    and "\<forall>s\<in>set ss. name (getServiceStatus s) \<notin> fst ` set acc"
  shows "fst (validate_loop nw ss acc w) = acc @ map (entry_of nw) ss \<and>
    requests (snd (validate_loop nw ss acc w)) =
      requests w @ map models_request (filter (\<lambda>s. truthy (apiKey s)) ss) \<and>
    console (snd (validate_loop nw ss acc w)) = console w"
  using assms
proof (induction ss arbitrary: acc w)
  case Nil
  then show ?case by simp
next
  case (Cons s ss)
  obtain ok w1 where v: "validateConnection nw s w = (ok, w1)"
    by (cases "validateConnection nw s w")
  have ok: "ok = fst (validateConnection nw s world0)"
    using v validateConnection_result [of nw s w world0] by simp
  have w1: "w1 = (if truthy (apiKey s) then issue (models_request s) w else w)"
    using v validateConnection_world [of nw s w] by simp
  let ?e = "\<lparr>v_configured = configured (getServiceStatus s), connected = ok,
             v_status = (if ok then ''healthy'' else ''unavailable'')\<rparr>"
  have fresh: "name (getServiceStatus s) \<notin> fst ` set acc"
    using Cons.prems(2) by simp
  have acc': "AList.update (name (getServiceStatus s)) ?e acc = acc @ [entry_of nw s]"
    using update_fresh [OF fresh] ok by (simp add: entry_of_def)
  have d: "distinct (map (\<lambda>s. name (getServiceStatus s)) ss)"
    using Cons.prems(1) by simp
  have f: "\<forall>t\<in>set ss. name (getServiceStatus t) \<notin> fst ` set (acc @ [entry_of nw s])"
  proof
    fix t assume t: "t \<in> set ss"
    then have "name (getServiceStatus t) \<noteq> name (getServiceStatus s)"
      using Cons.prems(1) by (force simp: image_iff)
    moreover have "name (getServiceStatus t) \<notin> fst ` set acc"
      using Cons.prems(2) t by simp
    ultimately show "name (getServiceStatus t) \<notin> fst ` set (acc @ [entry_of nw s])"
      by (simp add: entry_of_def)
  qed
  have step: "validate_loop nw (s # ss) acc w = validate_loop nw ss (acc @ [entry_of nw s]) w1"
    using v acc' by (simp add: Let_def)
  show ?case
    using Cons.IH [OF d f, of w1] step w1 by simp
qed

lemma validate_loop_requests:
  fixes w :: world
  shows "requests (snd (validate_loop nw ss acc w)) =
      requests w @ map models_request (filter (\<lambda>s. truthy (apiKey s)) ss)"
proof (induction ss arbitrary: acc w)
  case Nil
  then show ?case by simp
next
  case (Cons s ss)
  obtain ok w1 where v: "validateConnection nw s w = (ok, w1)"
    by (cases "validateConnection nw s w")
  have w1: "w1 = (if truthy (apiKey s) then issue (models_request s) w else w)"
    using v validateConnection_world [of nw s w] by simp
  show ?case
    using Cons.IH [of _ w1] v w1 by (simp add: Let_def)
qed

lemma validate_loop_map_of:
  fixes w :: world
  shows "map_of (fst (validate_loop nw ss acc w)) = map_of (rev (map (entry_of nw) ss) @ acc)"
proof (induction ss arbitrary: acc w)
  case Nil
  then show ?case by simp
next
  case (Cons s ss)
  obtain ok w1 where v: "validateConnection nw s w = (ok, w1)"
    by (cases "validateConnection nw s w")
  have ok: "ok = fst (validateConnection nw s world0)"
    using v validateConnection_result [of nw s w world0] by simp
  let ?k = "name (getServiceStatus s)"
  let ?e = "\<lparr>v_configured = configured (getServiceStatus s), connected = ok,
             v_status = (if ok then ''healthy'' else ''unavailable'')\<rparr>"
  have e: "entry_of nw s = (?k, ?e)"
    using ok by (simp add: entry_of_def)
  have step: "validate_loop nw (s # ss) acc w = validate_loop nw ss (AList.update ?k ?e acc) w1"
    using v by (simp add: Let_def)
  have "map_of (fst (validate_loop nw (s # ss) acc w)) =
      map_of (rev (map (entry_of nw) ss) @ AList.update ?k ?e acc)"
    using Cons.IH [of "AList.update ?k ?e acc" w1] step by simp
  also have "\<dots> = map_of (rev (map (entry_of nw) ss) @ (?k, ?e) # acc)"
    by (simp add: update_conv')
  finally show ?case
    using e by simp
qed

lemma validate_loop_keys:
  fixes w :: world
  shows "fst ` set (fst (validate_loop nw ss acc w)) =
      fst ` set acc \<union> (\<lambda>s. name (getServiceStatus s)) ` set ss"
proof (induction ss arbitrary: acc w)
  case Nil
  then show ?case by simp
next
  case (Cons s ss)
  obtain ok w1 where v: "validateConnection nw s w = (ok, w1)"
    by (cases "validateConnection nw s w")
  show ?case
    using Cons.IH v by (simp add: Let_def dom_update)
qed

lemma validate_loop_distinct_keys:
  fixes w :: world
  assumes "distinct (map fst acc)"
  shows "distinct (map fst (fst (validate_loop nw ss acc w)))"
  using assms
proof (induction ss arbitrary: acc w)
  case Nil
  then show ?case by simp
next
  case (Cons s ss)
  obtain ok w1 where v: "validateConnection nw s w = (ok, w1)"
    by (cases "validateConnection nw s w")
  show ?case
    using Cons.IH [OF distinct_update [OF Cons.prems]] v by (simp add: Let_def)
qed

text \<open>
  Claim C9, as stated: one entry per registered provider, and an adapter that is not
  configured is reported with the status \<^verbatim>\<open>unconfigured\<close>. The code has no such status:
  \<open>validateConnection\<close> returns \<open>False\<close> without a key and the entry says \<^verbatim>\<open>unavailable\<close>.
  The entries are keyed by name, so a registry with a second Groq adapter has three
  services and two entries.
\<close>

theorem unconfigured_is_reported_unavailable:
  "fst (validateServices (two_hosts times_out times_out) (registry [groq_bare, openai_bare]) world0) =
     [(''Groq'', \<lparr>v_configured = False, connected = False, v_status = ''unavailable''\<rparr>),
      (''OpenAI'', \<lparr>v_configured = False, connected = False, v_status = ''unavailable''\<rparr>)] \<and>
   ''unavailable'' \<noteq> ''unconfigured'' \<and>
   length (services (registry [groq_bare, openai_bare, groq_keyed])) = 3 \<and>
   map fst (fst (validateServices (two_hosts times_out times_out)
     (registry [groq_bare, openai_bare, groq_keyed]) world0)) = [''Groq'', ''OpenAI'']"
  by (simp add: validateServices_def validateConnection_def models_request_def issue_def
      sample_defs getServiceStatus_def Let_def)

text \<open>
  Claim C9, amended. For every registry, \<open>validateServices\<close> issues one request for each
  adapter that has a credential, in registry order, and none else: \<open>validateConnection\<close>
  of an adapter without a credential returns \<open>False\<close> and leaves the world as it was. The
  result has one entry for each name among the adapters, so one entry per adapter, in
  registry order, when the names are distinct. An adapter that is not configured and has no
  credential, and whose name no later adapter bears, is reported as not configured, not
  connected, with status \<^verbatim>\<open>unavailable\<close>.
\<close>

theorem validateServices_entries:
  fixes w v :: world
  shows "requests (snd (validateServices nw m w)) =
      requests w @ map models_request (filter (\<lambda>s. truthy (apiKey s)) (services m)) \<and>
    (\<forall>s. \<not> truthy (apiKey s) \<longrightarrow> validateConnection nw s v = (False, v)) \<and>
    distinct (map fst (fst (validateServices nw m w))) \<and>
    fst ` set (fst (validateServices nw m w)) =
      (\<lambda>s. name (getServiceStatus s)) ` set (services m) \<and>
    (distinct (map (\<lambda>s. name (getServiceStatus s)) (services m)) \<longrightarrow>
      map fst (fst (validateServices nw m w)) =
        map (\<lambda>s. name (getServiceStatus s)) (services m)) \<and>
    (\<forall>pre s post.
       services m = pre @ s # post \<and>
       name (getServiceStatus s) \<notin> (\<lambda>s. name (getServiceStatus s)) ` set post \<and>
       \<not> configured (getServiceStatus s) \<and> \<not> truthy (apiKey s) \<longrightarrow>
       map_of (fst (validateServices nw m w)) (name (getServiceStatus s)) =
         Some \<lparr>v_configured = False, connected = False, v_status = ''unavailable''\<rparr>)"
proof -
  have req: "requests (snd (validateServices nw m w)) =
      requests w @ map models_request (filter (\<lambda>s. truthy (apiKey s)) (services m))"
    by (simp add: validateServices_def validate_loop_requests)
  have probe: "\<forall>s. \<not> truthy (apiKey s) \<longrightarrow> validateConnection nw s v = (False, v)"
    by (simp add: validateConnection_def)
  have dist: "distinct (map fst (fst (validateServices nw m w)))"
    by (simp add: validateServices_def validate_loop_distinct_keys)
  have keys: "fst ` set (fst (validateServices nw m w)) =
      (\<lambda>s. name (getServiceStatus s)) ` set (services m)"
    by (simp add: validateServices_def validate_loop_keys)
  have ordered: "map fst (fst (validateServices nw m w)) =
      map (\<lambda>s. name (getServiceStatus s)) (services m)"
    if "distinct (map (\<lambda>s. name (getServiceStatus s)) (services m))"
    using validate_loop_distinct [OF that, of "[]" nw w]
    by (simp add: validateServices_def entry_of_def comp_def)
  have entry: "map_of (fst (validateServices nw m w)) (name (getServiceStatus s)) =
      Some \<lparr>v_configured = False, connected = False, v_status = ''unavailable''\<rparr>"
    if sv: "services m = pre @ s # post"
      and later: "name (getServiceStatus s) \<notin> (\<lambda>s. name (getServiceStatus s)) ` set post"
      and bare: "\<not> configured (getServiceStatus s)" "\<not> truthy (apiKey s)"
    for pre s post
  proof -
    have "name (getServiceStatus s) \<notin> fst ` set (rev (map (entry_of nw) post))"
      using later by (auto simp: entry_of_def)
    then have none: "map_of (rev (map (entry_of nw) post)) (name (getServiceStatus s)) = None"
      by (simp add: map_of_eq_None_iff)
    have here: "entry_of nw s = (name (getServiceStatus s),
        \<lparr>v_configured = False, connected = False, v_status = ''unavailable''\<rparr>)"
      using bare by (simp add: entry_of_def validateConnection_def)
    have "map_of (fst (validateServices nw m w)) =
        map_of (rev (map (entry_of nw) post) @ entry_of nw s # rev (map (entry_of nw) pre))"
      using sv by (simp add: validateServices_def validate_loop_map_of)
    then show ?thesis
      using none here by (simp add: map_add_def)
  qed
  show ?thesis
    using req probe dist keys ordered entry by blast
qed

theorem validateServices_entries_witness:
  "validateServices (two_hosts listing times_out)
     (registry [groq_bare, openai_bare, groq_keyed, openai_keyed]) world0 =
     ([(''Groq'', \<lparr>v_configured = True, connected = True, v_status = ''healthy''\<rparr>),
       (''OpenAI'', \<lparr>v_configured = True, connected = False, v_status = ''unavailable''\<rparr>)],
      \<lparr>requests =
         [\<lparr>req_method = GET, url = ''https://api.groq.com/openai/v1/models'', body = None,
           headers = [(''Authorization'', ''Bearer gsk-1'')], req_timeout = 5000\<rparr>,
          \<lparr>req_method = GET, url = ''https://api.openai.com/v1/models'', body = None,
           headers = [(''Authorization'', ''Bearer sk-1'')], req_timeout = 5000\<rparr>],
       console = []\<rparr>) \<and>
   validateServices (two_hosts listing times_out) (registry [groq_keyed, openai_bare]) world0 =
     ([(''Groq'', \<lparr>v_configured = True, connected = True, v_status = ''healthy''\<rparr>),
       (''OpenAI'', \<lparr>v_configured = False, connected = False, v_status = ''unavailable''\<rparr>)],
      \<lparr>requests =
         [\<lparr>req_method = GET, url = ''https://api.groq.com/openai/v1/models'', body = None,
           headers = [(''Authorization'', ''Bearer gsk-1'')], req_timeout = 5000\<rparr>],
       console = []\<rparr>)"
  using validateServices_entries [of "two_hosts listing times_out"
      "registry [groq_bare, openai_bare, groq_keyed, openai_keyed]" world0 world0]
    validateServices_entries [of "two_hosts listing times_out"
      "registry [groq_keyed, openai_bare]" world0 world0]
  by (simp add: validateServices_def validateConnection_def models_request_def issue_def
      bearer_def interpolate_def sample_defs getServiceStatus_def Let_def)

end
